theory Spec2Isabelle
  imports Main
begin

section \<open>Data model\<close>

text \<open>
  The two entry points of the repository, \<^verbatim>\<open>App.tsx\<close> and \<^verbatim>\<open>index.tsx\<close>, share one
  data model (\<^verbatim>\<open>types.ts\<close>; \<^verbatim>\<open>index.tsx\<close> repeats the interfaces inline).

  A JavaScript slot that may hold \<^verbatim>\<open>null\<close> or \<^verbatim>\<open>undefined\<close> is an \<open>option\<close>;
  \<open>None\<close> stands for both, which the code under study never tells apart (it only tests
  truthiness).
\<close>

type_synonym jsstring = "string option"

text \<open>
  \<^verbatim>\<open>interface ImageState { originalUrl; originalBase64; resultUrl: string | null; mimeType }\<close>.
  \<open>originalBase64\<close> is declared \<^verbatim>\<open>string\<close>, but it is filled from
  \<^verbatim>\<open>reader.result.split(',')[1]\<close>, which is \<^verbatim>\<open>undefined\<close> when the reader's result has
  no comma; hence \<open>jsstring\<close>.
\<close>

record ImageState =
  originalUrl :: string
  originalBase64 :: jsstring
  resultUrl :: "string option"
  mimeType :: string

record ProcessingStatus =
  isLoading :: bool
  message :: string
  error :: "string option"

text \<open>\<^verbatim>\<open>enum RemovalPresets\<close> of \<^verbatim>\<open>types.ts\<close>, the one \<^verbatim>\<open>App.tsx\<close> imports.\<close>

datatype RemovalPresets = TRANSPARENT_BG | OBJECTS | TEXT | CLEANUP | ENHANCE

fun preset_text :: "RemovalPresets \<Rightarrow> string" where
  "preset_text TRANSPARENT_BG = ''Remove the entire background and make it 100% transparent. The output must be a PNG image with a proper alpha channel transparency, leaving only the main subject. Do not use a solid white or black background.''"
| "preset_text OBJECTS = ''Identify and remove distracting background objects or people while keeping the main subject and maintaining the background context.''"
| "preset_text TEXT = ''Detect and remove all text, captions, or watermarks from this image, healing the background behind them seamlessly.''"
| "preset_text CLEANUP = ''Perform professional image retouching: remove blemishes, dust, and distracting small details to make the photo look studio-quality.''"
| "preset_text ENHANCE = ''Enhance this image: improve the resolution, sharpness, lighting, and overall color balance. Make it look professional, vibrant, and clear while maintaining its original content.''"

text \<open>
  The part of the component state the handlers read and write: \<^verbatim>\<open>image\<close>, the free-form
  text (\<^verbatim>\<open>instruction\<close> in \<^verbatim>\<open>App.tsx\<close>, \<^verbatim>\<open>customInstruction\<close> in \<^verbatim>\<open>index.tsx\<close>) and
  \<^verbatim>\<open>status\<close>. The checkerboard/grid toggle is read by no handler modelled here.
\<close>

record ui_state =
  image :: "ImageState option"
  instruction :: string
  status :: ProcessingStatus

text \<open>Of the browser's \<^verbatim>\<open>File\<close> only \<^verbatim>\<open>type\<close> is read.\<close>

record File =
  type :: string

subsection \<open>The generation service's request and response\<close>

text \<open>
  The shapes of \<^verbatim>\<open>@google/genai\<close> that \<^verbatim>\<open>editImage\<close> builds and reads. Every field of a
  response is optional in the SDK; fields the code never reads are left out.
\<close>

record Blob =
  data :: jsstring
  inline_mimeType :: jsstring

record Part =
  inlineData :: "Blob option"
  part_text :: jsstring

record Content =
  parts :: "Part list option"

record Candidate =
  content :: "Content option"

record GenerateContentResponse =
  candidates :: "Candidate list option"

record GenerateContentParameters =
  model :: string
  contents :: Content

text \<open>
  What a \<^verbatim>\<open>try\<close> block can catch: an \<^verbatim>\<open>Error\<close> made by the code with its message, a
  \<^verbatim>\<open>TypeError\<close> raised by the runtime when a property of \<^verbatim>\<open>undefined\<close> is read (its
  argument is the property; the message text is the engine's), or whatever else the
  service call rejects with, of which only the \<^verbatim>\<open>message\<close> property (if any) is read.
\<close>

datatype exn = Error string | TypeError string | Rejection jsstring

definition cannot_read :: "string \<Rightarrow> string" where
  "cannot_read prop =
     ''Cannot read properties of undefined (reading '' @ [CHR 0x27] @ prop @ [CHR 0x27] @ '')''"

fun message_of :: "exn \<Rightarrow> jsstring" where
  "message_of (Error m) = Some m"
| "message_of (TypeError prop) = Some (cannot_read prop)"
| "message_of (Rejection m) = m"

section \<open>String helpers of the JavaScript runtime\<close>

text \<open>\<^verbatim>\<open>s.startsWith(p)\<close>.\<close>

definition startsWith :: "string \<Rightarrow> string \<Rightarrow> bool" where
  "startsWith s p = (take (length p) s = p)"

text \<open>
  \<^verbatim>\<open>s.split(c)\<close> for a one-character separator: the pieces between the separators, in
  order; the empty string splits into one empty piece.
\<close>

fun split :: "char \<Rightarrow> string \<Rightarrow> string list" where
  "split c [] = [[]]"
| "split c (x # xs) =
     (if x = c then [] # split c xs
      else (case split c xs of [] \<Rightarrow> [[x]] | w # ws \<Rightarrow> (x # w) # ws))"

text \<open>\<^verbatim>\<open>xs[i]\<close>: \<^verbatim>\<open>undefined\<close> out of range.\<close>

fun index :: "'a list \<Rightarrow> nat \<Rightarrow> 'a option" where
  "index [] i = None"
| "index (x # xs) 0 = Some x"
| "index (x # xs) (Suc i) = index xs i"

text \<open>
  \<^verbatim>\<open>a || d\<close> for a string slot \<open>a\<close> and a string \<open>d\<close>: \<^verbatim>\<open>undefined\<close> and the empty
  string are falsy and give \<open>d\<close>.
\<close>

fun or_else :: "jsstring \<Rightarrow> string \<Rightarrow> string" where
  "or_else None d = d"
| "or_else (Some s) d = (if s = [] then d else s)"

section \<open>The service wrapper: \<^verbatim>\<open>editImage\<close> (index.tsx, lines 50--77)\<close>

text \<open>
  The network is a log of the requests issued; the remote service is a parameter \<open>srv\<close>
  giving, for a request, what \<^verbatim>\<open>await ai.models.generateContent(...)\<close> yields: a response
  or a rejection. Constructing the client (\<^verbatim>\<open>new GoogleGenAI\<close>) issues no request.
\<close>

type_synonym service = "GenerateContentParameters \<Rightarrow> exn + GenerateContentResponse"

type_synonym network = "GenerateContentParameters list"

definition generateContent ::
  "service \<Rightarrow> GenerateContentParameters \<Rightarrow> network \<Rightarrow> (exn + GenerateContentResponse) \<times> network" where
  "generateContent srv req net = (srv req, net @ [req])"

text \<open>Lines 52--60: the request \<^verbatim>\<open>editImage\<close> builds.\<close>

definition editImage_request :: "jsstring \<Rightarrow> string \<Rightarrow> string \<Rightarrow> GenerateContentParameters" where
  "editImage_request base64Data mime instr =
     \<lparr>model = ''gemini-2.5-flash-image'',
      contents = \<lparr>parts = Some
        [\<lparr>inlineData = Some \<lparr>data = base64Data, inline_mimeType = Some mime\<rparr>, part_text = None\<rparr>,
         \<lparr>inlineData = None, part_text = Some instr\<rparr>]\<rparr>\<rparr>"

text \<open>
  Lines 64--69: the \<^verbatim>\<open>for\<close> loop with its \<^verbatim>\<open>break\<close>. \<open>acc\<close> is \<^verbatim>\<open>editedImageBase64\<close>;
  the first part with an \<^verbatim>\<open>inlineData\<close> object overwrites it with that object's
  \<^verbatim>\<open>data\<close> (possibly \<^verbatim>\<open>undefined\<close>) and ends the loop.
\<close>

fun scan_parts :: "Part list \<Rightarrow> jsstring \<Rightarrow> jsstring" where
  "scan_parts [] acc = acc"
| "scan_parts (p # ps) acc =
     (case inlineData p of Some b \<Rightarrow> data b | None \<Rightarrow> scan_parts ps acc)"

definition no_image_message :: string where
  "no_image_message = ''AI did not return an image. Try being more specific about what to remove.''"

text \<open>
  Lines 72--76: the guard \<^verbatim>\<open>!editedImageBase64\<close> (true of \<^verbatim>\<open>undefined\<close> and of the empty
  string) and the returned data URL.
\<close>

definition editImage_finish :: "jsstring \<Rightarrow> exn + string" where
  "editImage_finish editedImageBase64 =
     (case editedImageBase64 of
        None \<Rightarrow> Inl (Error no_image_message)
      | Some d \<Rightarrow>
          (if d = [] then Inl (Error no_image_message)
           else Inr (''data:image/png;base64,'' @ d)))"

text \<open>
  Lines 62--76, the extraction step. In
  \<^verbatim>\<open>response.candidates && response.candidates[0].content.parts\<close> an array is truthy
  even when empty; \<^verbatim>\<open>candidates[0]\<close> of an empty array is \<^verbatim>\<open>undefined\<close>, and reading
  \<^verbatim>\<open>.content\<close> of it, or \<^verbatim>\<open>.parts\<close> of an absent \<^verbatim>\<open>content\<close>, raises a \<^verbatim>\<open>TypeError\<close>.
\<close>

definition editImage_extract :: "GenerateContentResponse \<Rightarrow> exn + string" where
  "editImage_extract response =
     (case candidates response of
        None \<Rightarrow> editImage_finish (Some [])
      | Some cs \<Rightarrow>
          (case index cs 0 of
             None \<Rightarrow> Inl (TypeError ''content'')
           | Some c \<Rightarrow>
               (case content c of
                  None \<Rightarrow> Inl (TypeError ''parts'')
                | Some ct \<Rightarrow>
                    (case parts ct of
                       None \<Rightarrow> editImage_finish (Some [])
                     | Some ps \<Rightarrow> editImage_finish (scan_parts ps (Some []))))))"

definition editImage ::
  "service \<Rightarrow> jsstring \<Rightarrow> string \<Rightarrow> string \<Rightarrow> network \<Rightarrow> (exn + string) \<times> network" where
  "editImage srv base64Data mime instr net =
     (case generateContent srv (editImage_request base64Data mime instr) net of
        (Inl e, net') \<Rightarrow> (Inl e, net')
      | (Inr response, net') \<Rightarrow> (editImage_extract response, net'))"

section \<open>Upload handlers\<close>

text \<open>
  \<^verbatim>\<open>handleFileUpload\<close> (App.tsx, lines 19--40) up to \<^verbatim>\<open>reader.readAsDataURL(file)\<close>. The
  argument is \<^verbatim>\<open>e.target.files?.[0]\<close>; the second component of the result is the file
  handed to the reader, if reading was started.
\<close>

definition handleFileUpload :: "File option \<Rightarrow> ui_state \<Rightarrow> ui_state \<times> File option" where
  "handleFileUpload f st =
     (case f of
        None \<Rightarrow> (st, None)
      | Some file \<Rightarrow>
          (if \<not> startsWith (type file) ''image/''
           then (st\<lparr>status := (status st)\<lparr>error := Some ''Please upload a valid image file.''\<rparr>\<rparr>, None)
           else (st, Some file)))"

text \<open>
  The \<^verbatim>\<open>reader.onload\<close> callback (App.tsx, lines 29--38), run on the reader's result
  against the state current at that moment.
\<close>

definition handleFileUpload_onload :: "string \<Rightarrow> File \<Rightarrow> ui_state \<Rightarrow> ui_state" where
  "handleFileUpload_onload result file st =
     (let base64 = index (split CHR '','' result) 1
      in st\<lparr>image := Some \<lparr>originalUrl = result, originalBase64 = base64,
                            resultUrl = None, mimeType = type file\<rparr>,
            status := \<lparr>isLoading = False, message = [], error = None\<rparr>\<rparr>)"

text \<open>\<^verbatim>\<open>handleFileChange\<close> and its \<^verbatim>\<open>onload\<close> (index.tsx, lines 92--113).\<close>

definition handleFileChange :: "File option \<Rightarrow> ui_state \<Rightarrow> ui_state \<times> File option" where
  "handleFileChange f st =
     (case f of
        None \<Rightarrow> (st, None)
      | Some file \<Rightarrow>
          (if \<not> startsWith (type file) ''image/''
           then (st\<lparr>status := (status st)\<lparr>error := Some ''Please upload a valid image file.''\<rparr>\<rparr>, None)
           else (st, Some file)))"

definition handleFileChange_onload :: "string \<Rightarrow> File \<Rightarrow> ui_state \<Rightarrow> ui_state" where
  "handleFileChange_onload result file st =
     (let base64 = index (split CHR '','' result) 1
      in st\<lparr>image := Some \<lparr>originalUrl = result, originalBase64 = base64,
                            resultUrl = None, mimeType = type file\<rparr>,
            status := \<lparr>isLoading = False, message = [], error = None\<rparr>\<rparr>)"

section \<open>Processing handlers\<close>

text \<open>
  An \<^verbatim>\<open>async\<close> handler runs in two steps: up to its \<^verbatim>\<open>await\<close> (\<open>_begin\<close>, which yields the
  arguments of the edit call it makes, if any), and from the outcome of the awaited call
  to the end (\<open>_settle\<close>, run against the state current at that moment, as the functional
  \<^verbatim>\<open>setImage(prev => ...)\<close> is). The handler proper is the two steps with no other event
  in between.
\<close>

type_synonym edit_call = "jsstring \<times> string \<times> string"

subsection \<open>\<^verbatim>\<open>handleRemove\<close> (App.tsx, lines 42--70)\<close>

text \<open>Line 45: \<^verbatim>\<open>customInstruction || instruction || RemovalPresets.TRANSPARENT_BG\<close>.\<close>

definition finalInstruction :: "jsstring \<Rightarrow> string \<Rightarrow> string" where
  "finalInstruction customInstruction instr =
     or_else customInstruction (or_else (Some instr) (preset_text TRANSPARENT_BG))"

definition handleRemove_begin :: "jsstring \<Rightarrow> ui_state \<Rightarrow> ui_state \<times> edit_call option" where
  "handleRemove_begin customInstruction st =
     (case image st of
        None \<Rightarrow> (st, None)
      | Some img \<Rightarrow>
          (st\<lparr>status := \<lparr>isLoading = True,
                           message = ''Processing your image with AI magic...'',
                           error = None\<rparr>\<rparr>,
           Some (originalBase64 img, mimeType img,
                 finalInstruction customInstruction (instruction st))))"

definition handleRemove_settle :: "exn + string \<Rightarrow> ui_state \<Rightarrow> ui_state" where
  "handleRemove_settle outcome st =
     (case outcome of
        Inr url \<Rightarrow>
          st\<lparr>image := (case image st of Some prev \<Rightarrow> Some (prev\<lparr>resultUrl := Some url\<rparr>)
                                      | None \<Rightarrow> None),
             status := \<lparr>isLoading = False, message = [], error = None\<rparr>\<rparr>
      | Inl err \<Rightarrow>
          st\<lparr>status := \<lparr>isLoading = False, message = [],
                           error = Some (or_else (message_of err)
                                           ''Something went wrong. Please try again.'')\<rparr>\<rparr>)"

text \<open>
  \<^verbatim>\<open>GeminiService\<close> (\<^verbatim>\<open>services/geminiService\<close>) is not among the sources at hand: its
  \<^verbatim>\<open>editImage\<close> is the parameter \<open>gemini_editImage\<close>, whose value is the outcome of the
  \<^verbatim>\<open>try\<close> block's call.
\<close>

definition handleRemove ::
  "(jsstring \<Rightarrow> string \<Rightarrow> string \<Rightarrow> exn + string) \<Rightarrow> jsstring \<Rightarrow> ui_state \<Rightarrow> ui_state" where
  "handleRemove gemini_editImage customInstruction st =
     (case handleRemove_begin customInstruction st of
        (st', None) \<Rightarrow> st'
      | (st', Some (base64Data, mime, instr)) \<Rightarrow>
          handleRemove_settle (gemini_editImage base64Data mime instr) st')"

subsection \<open>\<^verbatim>\<open>processImage\<close> (index.tsx, lines 115--126)\<close>

definition processImage_begin :: "string \<Rightarrow> ui_state \<Rightarrow> ui_state \<times> edit_call option" where
  "processImage_begin instr st =
     (case image st of
        None \<Rightarrow> (st, None)
      | Some img \<Rightarrow>
          (st\<lparr>status := \<lparr>isLoading = True,
                           message = ''Gemini is processing your request...'',
                           error = None\<rparr>\<rparr>,
           Some (originalBase64 img, mimeType img, instr)))"

definition processImage_settle :: "exn + string \<Rightarrow> ui_state \<Rightarrow> ui_state" where
  "processImage_settle outcome st =
     (case outcome of
        Inr url \<Rightarrow>
          st\<lparr>image := (case image st of Some prev \<Rightarrow> Some (prev\<lparr>resultUrl := Some url\<rparr>)
                                      | None \<Rightarrow> None),
             status := \<lparr>isLoading = False, message = [], error = None\<rparr>\<rparr>
      | Inl err \<Rightarrow>
          st\<lparr>status := \<lparr>isLoading = False, message = [], error = message_of err\<rparr>\<rparr>)"

definition processImage ::
  "service \<Rightarrow> string \<Rightarrow> ui_state \<Rightarrow> network \<Rightarrow> ui_state \<times> network" where
  "processImage srv instr st net =
     (case processImage_begin instr st of
        (st', None) \<Rightarrow> (st', net)
      | (st', Some (base64Data, mime, instr')) \<Rightarrow>
          (case editImage srv base64Data mime instr' net of
             (outcome, net') \<Rightarrow> (processImage_settle outcome st', net')))"

subsection \<open>States to run the handlers on\<close>

text \<open>The state the component starts in (the \<^verbatim>\<open>useState\<close> defaults).\<close>

definition initial_state :: ui_state where
  "initial_state =
     \<lparr>image = None, instruction = [],
      status = \<lparr>isLoading = False, message = [], error = None\<rparr>\<rparr>"

text \<open>A state after an upload, and one after a first edit with some free-form text typed.\<close>

definition example_image :: ImageState where
  "example_image =
     \<lparr>originalUrl = ''data:image/png;base64,AAAA'', originalBase64 = Some ''AAAA'',
      resultUrl = None, mimeType = ''image/png''\<rparr>"

definition loaded_state :: ui_state where
  "loaded_state =
     \<lparr>image = Some example_image, instruction = [],
      status = \<lparr>isLoading = False, message = [], error = None\<rparr>\<rparr>"

definition edited_image :: ImageState where
  "edited_image = example_image\<lparr>resultUrl := Some ''data:image/png;base64,BBBB''\<rparr>"

definition edited_state :: ui_state where
  "edited_state =
     \<lparr>image = Some edited_image, instruction = ''make it brighter'',
      status = \<lparr>isLoading = False, message = [], error = None\<rparr>\<rparr>"

section \<open>Facts about the helpers\<close>

lemmas example_defs =
  initial_state_def example_image_def loaded_state_def edited_image_def edited_state_def

lemma scan_parts_find:
  "scan_parts ps acc =
     (case find (\<lambda>p. inlineData p \<noteq> None) ps of
        None \<Rightarrow> acc
      | Some p \<Rightarrow> (case inlineData p of None \<Rightarrow> acc | Some b \<Rightarrow> data b))"
  by (induction ps) (auto split: option.splits)

lemma editImage_fst:
  "srv (editImage_request b m i) = Inr r \<Longrightarrow> fst (editImage srv b m i net) = editImage_extract r"
  by (simp add: editImage_def generateContent_def)

lemma editImage_finish_error_iff:
  "editImage_finish e = Inl (Error no_image_message) \<longleftrightarrow> e = None \<or> e = Some []"
  by (simp add: editImage_finish_def split: option.splits)

lemma split_hd: "\<exists>ws. split c s = takeWhile (\<lambda>x. x \<noteq> c) s # ws"
  by (induction s) (auto split: list.splits)

lemma split_no_sep: "c \<notin> set s \<Longrightarrow> split c s = [s]"
  by (induction s) auto

lemma split_at_first: "c \<notin> set h \<Longrightarrow> split c (h @ c # t) = h # split c t"
  by (induction h) auto

lemma index_split_1:
  "c \<notin> set h \<Longrightarrow> index (split c (h @ c # t)) (Suc 0) = Some (takeWhile (\<lambda>x. x \<noteq> c) t)"
  using split_hd[of c t] by (auto simp: split_at_first)

lemma index_split_1_none: "c \<notin> set s \<Longrightarrow> index (split c s) (Suc 0) = None"
  by (simp add: split_no_sep)

lemma after_first_comma:
  "c \<notin> set h \<Longrightarrow> tl (dropWhile (\<lambda>x. x \<noteq> c) (h @ c # t)) = t"
  by (induction h) auto

lemma preset_text_nonempty: "preset_text p \<noteq> []"
  by (cases p) simp_all

lemma handleRemove_loaded:
  "image st = Some img \<Longrightarrow>
   handleRemove ed custom st =
     handleRemove_settle
       (ed (originalBase64 img) (mimeType img) (finalInstruction custom (instruction st)))
       (st\<lparr>status := \<lparr>isLoading = True, message = ''Processing your image with AI magic...'',
                        error = None\<rparr>\<rparr>)"
  by (simp add: handleRemove_def handleRemove_begin_def)

lemma processImage_loaded:
  "image st = Some img \<Longrightarrow>
   fst (processImage srv instr st net) =
     processImage_settle
       (fst (editImage srv (originalBase64 img) (mimeType img) instr net))
       (st\<lparr>status := \<lparr>isLoading = True, message = ''Gemini is processing your request...'',
                        error = None\<rparr>\<rparr>)"
  by (simp add: processImage_def processImage_begin_def split: prod.splits)

lemma upload_without_comma:
  assumes "CHR '','' \<notin> set result"
  shows "handleFileUpload_onload result file st =
           st\<lparr>image := Some \<lparr>originalUrl = result, originalBase64 = None,
                    resultUrl = None, mimeType = type file\<rparr>,
              status := \<lparr>isLoading = False, message = [], error = None\<rparr>\<rparr>"
    and "handleFileChange_onload result file st = handleFileUpload_onload result file st"
  using assms
  by (simp_all add: handleFileUpload_onload_def handleFileChange_onload_def index_split_1_none)

section \<open>Extraction of the image from the response\<close>

text \<open>
  C1, as stated, fails: the loop stops at the first part that has an \<^verbatim>\<open>inlineData\<close>
  object, and when that object's \<^verbatim>\<open>data\<close> is empty the guard of line 72 throws, although
  a later part carries a payload.
\<close>

theorem editImage_empty_first_inline_counterexample:
  "editImage_extract
     \<lparr>candidates = Some [\<lparr>content = Some \<lparr>parts = Some
        [\<lparr>inlineData = Some \<lparr>data = Some [], inline_mimeType = Some ''image/png''\<rparr>,
           part_text = None\<rparr>,
         \<lparr>inlineData = Some \<lparr>data = Some ''QUJD'', inline_mimeType = Some ''image/png''\<rparr>,
           part_text = None\<rparr>]\<rparr>\<rparr>]\<rparr>
   = Inl (Error no_image_message)"
  by (simp add: editImage_extract_def editImage_finish_def)

text \<open>
  C1 (amended): when the service answers with a response whose first candidate has a parts
  list, and the first part of that list with an \<^verbatim>\<open>inlineData\<close> object has a non-empty
  \<^verbatim>\<open>data\<close> string \<open>d\<close>, \<^verbatim>\<open>editImage\<close> returns \<^verbatim>\<open>data:image/png;base64,\<close> followed by \<open>d\<close>,
  whatever mime type \<open>mt\<close> the service attached to it.
\<close>

theorem editImage_first_inline_data_url:
  assumes "srv (editImage_request b m i) = Inr r"
    and "candidates r = Some (c # cs)" and "content c = Some ct" and "parts ct = Some ps"
    and "find (\<lambda>p. inlineData p \<noteq> None) ps = Some p"
    and "inlineData p = Some \<lparr>data = Some d, inline_mimeType = mt\<rparr>"
    and "d \<noteq> []"
  shows "fst (editImage srv b m i net) = Inr (''data:image/png;base64,'' @ d)"
proof -
  have "scan_parts ps (Some []) = Some d"
    using assms(5,6) by (simp add: scan_parts_find)
  then have "editImage_extract r = Inr (''data:image/png;base64,'' @ d)"
    using assms(2,3,4,7) by (simp add: editImage_extract_def editImage_finish_def)
  with assms(1) show ?thesis by (simp add: editImage_fst)
qed

theorem editImage_first_inline_data_url_witness:
  "fst (editImage
     (\<lambda>_. Inr \<lparr>candidates = Some [\<lparr>content = Some \<lparr>parts = Some
        [\<lparr>inlineData = None, part_text = Some ''done''\<rparr>,
         \<lparr>inlineData = Some \<lparr>data = Some ''QUJD'', inline_mimeType = Some ''image/jpeg''\<rparr>,
           part_text = None\<rparr>]\<rparr>\<rparr>]\<rparr>)
     (Some ''AAAA'') ''image/jpeg'' ''Enhance'' [])
   = Inr ''data:image/png;base64,QUJD''"
  using editImage_first_inline_data_url
    [of "\<lambda>_. Inr \<lparr>candidates = Some [\<lparr>content = Some \<lparr>parts = Some
        [\<lparr>inlineData = None, part_text = Some ''done''\<rparr>,
         \<lparr>inlineData = Some \<lparr>data = Some ''QUJD'', inline_mimeType = Some ''image/jpeg''\<rparr>,
           part_text = None\<rparr>]\<rparr>\<rparr>]\<rparr>"
        "Some ''AAAA''" "''image/jpeg''" "''Enhance''"
        "\<lparr>candidates = Some [\<lparr>content = Some \<lparr>parts = Some
        [\<lparr>inlineData = None, part_text = Some ''done''\<rparr>,
         \<lparr>inlineData = Some \<lparr>data = Some ''QUJD'', inline_mimeType = Some ''image/jpeg''\<rparr>,
           part_text = None\<rparr>]\<rparr>\<rparr>]\<rparr>"
        "\<lparr>content = Some \<lparr>parts = Some
        [\<lparr>inlineData = None, part_text = Some ''done''\<rparr>,
         \<lparr>inlineData = Some \<lparr>data = Some ''QUJD'', inline_mimeType = Some ''image/jpeg''\<rparr>,
           part_text = None\<rparr>]\<rparr>\<rparr>"
        "[]"
        "\<lparr>parts = Some
        [\<lparr>inlineData = None, part_text = Some ''done''\<rparr>,
         \<lparr>inlineData = Some \<lparr>data = Some ''QUJD'', inline_mimeType = Some ''image/jpeg''\<rparr>,
           part_text = None\<rparr>]\<rparr>"
        "[\<lparr>inlineData = None, part_text = Some ''done''\<rparr>,
         \<lparr>inlineData = Some \<lparr>data = Some ''QUJD'', inline_mimeType = Some ''image/jpeg''\<rparr>,
           part_text = None\<rparr>]"
        "\<lparr>inlineData = Some \<lparr>data = Some ''QUJD'', inline_mimeType = Some ''image/jpeg''\<rparr>,
           part_text = None\<rparr>"
        "''QUJD''" "Some ''image/jpeg''" "[]"]
  by simp

text \<open>
  C2, as stated, fails: the error is thrown for a response whose third part carries
  inline image data, because the second part's \<^verbatim>\<open>inlineData\<close> has no \<^verbatim>\<open>data\<close>.
\<close>

theorem editImage_error_despite_inline_counterexample:
  "editImage_extract
     \<lparr>candidates = Some [\<lparr>content = Some \<lparr>parts = Some
        [\<lparr>inlineData = None, part_text = Some ''Here is your image''\<rparr>,
         \<lparr>inlineData = Some \<lparr>data = None, inline_mimeType = Some ''image/png''\<rparr>,
           part_text = None\<rparr>,
         \<lparr>inlineData = Some \<lparr>data = Some ''iVBORw0KGgo='', inline_mimeType = Some ''image/png''\<rparr>,
           part_text = None\<rparr>]\<rparr>\<rparr>]\<rparr>
   = Inl (Error no_image_message)"
  by (simp add: editImage_extract_def editImage_finish_def)

text \<open>
  C2 (amended): for a response that has no \<^verbatim>\<open>candidates\<close> field, or whose first candidate
  exists and has a \<^verbatim>\<open>content\<close>, with \<open>ps\<close> the parts of that content (none when the field
  is absent): \<^verbatim>\<open>editImage\<close> throws the no-image error if and only if no part of \<open>ps\<close> has
  an \<^verbatim>\<open>inlineData\<close> object, or the first part that has one has an absent or empty
  \<^verbatim>\<open>data\<close>.
\<close>

theorem editImage_no_image_error_iff:
  assumes "srv (editImage_request b m i) = Inr r"
    and "candidates r = None \<and> ps = [] \<or>
         (\<exists>c cs ct. candidates r = Some (c # cs) \<and> content c = Some ct \<and>
            ps = (case parts ct of None \<Rightarrow> [] | Some l \<Rightarrow> l))"
  shows "fst (editImage srv b m i net) = Inl (Error no_image_message) \<longleftrightarrow>
         (\<forall>p blob. find (\<lambda>p. inlineData p \<noteq> None) ps = Some p \<and> inlineData p = Some blob
            \<longrightarrow> data blob = None \<or> data blob = Some [])"
proof -
  have ex: "editImage_extract r = editImage_finish (scan_parts ps (Some []))"
    using assms(2) by (auto simp: editImage_extract_def split: option.splits)
  have "scan_parts ps (Some []) = None \<or> scan_parts ps (Some []) = Some [] \<longleftrightarrow>
        (\<forall>p blob. find (\<lambda>p. inlineData p \<noteq> None) ps = Some p \<and> inlineData p = Some blob
            \<longrightarrow> data blob = None \<or> data blob = Some [])"
    by (auto simp: scan_parts_find split: option.splits dest: find_Some_iff[THEN iffD1])
  then show ?thesis
    using assms(1) by (simp add: editImage_fst ex editImage_finish_error_iff)
qed

theorem editImage_no_image_error_iff_witness:
  "fst (editImage
     (\<lambda>_. Inr \<lparr>candidates = Some [\<lparr>content = Some \<lparr>parts = Some
        [\<lparr>inlineData = None, part_text = Some ''I cannot edit this image.''\<rparr>]\<rparr>\<rparr>]\<rparr>)
     (Some ''AAAA'') ''image/png'' ''Remove the text'' [])
   = Inl (Error no_image_message)"
  using editImage_no_image_error_iff
    [of "\<lambda>_. Inr \<lparr>candidates = Some [\<lparr>content = Some \<lparr>parts = Some
        [\<lparr>inlineData = None, part_text = Some ''I cannot edit this image.''\<rparr>]\<rparr>\<rparr>]\<rparr>"
        "Some ''AAAA''" "''image/png''" "''Remove the text''"
        "\<lparr>candidates = Some [\<lparr>content = Some \<lparr>parts = Some
        [\<lparr>inlineData = None, part_text = Some ''I cannot edit this image.''\<rparr>]\<rparr>\<rparr>]\<rparr>"
        "[\<lparr>inlineData = None, part_text = Some ''I cannot edit this image.''\<rparr>]"
        "[]"]
  by simp

text \<open>
  C4: the extraction step does not only return or throw the no-image error. On a
  response whose \<^verbatim>\<open>candidates\<close> list is empty, and on one whose first candidate has no
  \<^verbatim>\<open>content\<close>, the condition of line 63 itself raises a \<^verbatim>\<open>TypeError\<close>.
\<close>

theorem editImage_extract_type_error:
  "editImage_extract \<lparr>candidates = Some []\<rparr> = Inl (TypeError ''content'') \<and>
   editImage_extract \<lparr>candidates = Some [\<lparr>content = None\<rparr>]\<rparr> = Inl (TypeError ''parts'')"
  by (simp add: editImage_extract_def)

section \<open>The request\<close>

text \<open>
  C8: whatever the service answers, \<^verbatim>\<open>editImage\<close> adds exactly one request to those
  issued: to the model \<^verbatim>\<open>gemini-2.5-flash-image\<close>, with two parts, the inline data (the
  payload and mime type it was given) and then the instruction. \<^verbatim>\<open>processImage\<close> gives it
  the stored payload and mime type of the image.
\<close>

theorem editImage_one_request:
  "snd (editImage srv b m i net) =
     net @ [\<lparr>model = ''gemini-2.5-flash-image'',
              contents = \<lparr>parts = Some
                [\<lparr>inlineData = Some \<lparr>data = b, inline_mimeType = Some m\<rparr>, part_text = None\<rparr>,
                 \<lparr>inlineData = None, part_text = Some i\<rparr>]\<rparr>\<rparr>] \<and>
   (\<forall>img. image st = Some img \<longrightarrow>
      snd (processImage srv instr st net) =
        net @ [\<lparr>model = ''gemini-2.5-flash-image'',
                 contents = \<lparr>parts = Some
                   [\<lparr>inlineData = Some \<lparr>data = originalBase64 img,
                                         inline_mimeType = Some (mimeType img)\<rparr>,
                     part_text = None\<rparr>,
                    \<lparr>inlineData = None, part_text = Some instr\<rparr>]\<rparr>\<rparr>])"
  by (auto simp: editImage_def generateContent_def editImage_request_def processImage_def
      processImage_begin_def split: sum.splits prod.splits)

theorem editImage_one_request_witness:
  "snd (processImage (\<lambda>r. Inl (Rejection None)) ''Enhance'' loaded_state []) =
     [\<lparr>model = ''gemini-2.5-flash-image'',
       contents = \<lparr>parts = Some
         [\<lparr>inlineData = Some \<lparr>data = Some ''AAAA'', inline_mimeType = Some ''image/png''\<rparr>,
           part_text = None\<rparr>,
          \<lparr>inlineData = None, part_text = Some ''Enhance''\<rparr>]\<rparr>\<rparr>]"
  using editImage_one_request [of "\<lambda>r. Inl (Rejection None)" "Some ''AAAA''" "''image/png''"
      "''Enhance''" "[]" "loaded_state" "''Enhance''"]
  by (simp add: example_defs)

section \<open>Upload\<close>

text \<open>
  C10: for a selected file whose type does not start with \<^verbatim>\<open>image/\<close>, both upload handlers
  start no read, leave the image (with any result in it) as it is, and change of the
  status only the error, to \<^verbatim>\<open>Please upload a valid image file.\<close>
\<close>

theorem upload_rejects_non_image:
  assumes "\<not> startsWith (type file) ''image/''"
  shows "handleFileUpload (Some file) st =
           (st\<lparr>status := (status st)\<lparr>error := Some ''Please upload a valid image file.''\<rparr>\<rparr>, None) \<and>
         handleFileChange (Some file) st =
           (st\<lparr>status := (status st)\<lparr>error := Some ''Please upload a valid image file.''\<rparr>\<rparr>, None) \<and>
         image (fst (handleFileUpload (Some file) st)) = image st \<and>
         image (fst (handleFileChange (Some file) st)) = image st \<and>
         status (fst (handleFileUpload (Some file) st)) =
           \<lparr>isLoading = isLoading (status st), message = message (status st),
            error = Some ''Please upload a valid image file.''\<rparr> \<and>
         status (fst (handleFileChange (Some file) st)) =
           \<lparr>isLoading = isLoading (status st), message = message (status st),
            error = Some ''Please upload a valid image file.''\<rparr>"
  using assms by (simp add: handleFileUpload_def handleFileChange_def)

theorem upload_rejects_non_image_witness:
  "handleFileUpload (Some \<lparr>type = ''application/pdf''\<rparr>) edited_state =
     (edited_state\<lparr>status := \<lparr>isLoading = False, message = [],
                       error = Some ''Please upload a valid image file.''\<rparr>\<rparr>, None) \<and>
   handleFileChange (Some \<lparr>type = ''application/pdf''\<rparr>) edited_state =
     (edited_state\<lparr>status := \<lparr>isLoading = False, message = [],
                       error = Some ''Please upload a valid image file.''\<rparr>\<rparr>, None)"
  using upload_rejects_non_image [of "\<lparr>type = ''application/pdf''\<rparr>" "edited_state"]
  by (simp add: example_defs startsWith_def)

text \<open>
  C7: \<^verbatim>\<open>readAsDataURL\<close> delivers a data URL of the form
  \<^verbatim>\<open>data:<media type>;base64,<payload>\<close>, in which neither the media type nor the base64
  payload contains a comma. A file whose type starts with \<^verbatim>\<open>image/\<close> is handed to the
  reader with the state untouched, and when the reader delivers such a URL the image
  becomes: \<open>originalUrl\<close> the full data URL, \<open>originalBase64\<close> the substring of that URL
  after its first comma (which is the payload), \<open>mimeType\<close> the file's type, \<open>resultUrl\<close>
  null; and the status is reset to not loading, with empty message and no error. Both
  upload handlers do the same.
\<close>

theorem upload_stores_image:
  assumes "startsWith (type file) ''image/''"
    and "result = ''data:'' @ mediatype @ '';base64,'' @ payload"
    and "CHR '','' \<notin> set mediatype" and "CHR '','' \<notin> set payload"
  shows "handleFileUpload (Some file) st = (st, Some file) \<and>
         handleFileChange (Some file) st = (st, Some file) \<and>
         handleFileUpload_onload result file st' =
           st'\<lparr>image := Some \<lparr>originalUrl = result,
                    originalBase64 = Some (tl (dropWhile (\<lambda>x. x \<noteq> CHR '','') result)),
                    resultUrl = None, mimeType = type file\<rparr>,
               status := \<lparr>isLoading = False, message = [], error = None\<rparr>\<rparr> \<and>
         handleFileChange_onload result file st' = handleFileUpload_onload result file st' \<and>
         tl (dropWhile (\<lambda>x. x \<noteq> CHR '','') result) = payload"
proof -
  let ?h = "''data:'' @ mediatype @ '';base64''"
  have r: "result = ?h @ CHR '','' # payload"
    using assms(2) by simp
  have h: "CHR '','' \<notin> set ?h"
    using assms(3) by simp
  have after: "tl (dropWhile (\<lambda>x. x \<noteq> CHR '','') result) = payload"
    unfolding r using h by (rule after_first_comma)
  have "takeWhile (\<lambda>x. x \<noteq> CHR '','') payload = payload"
    using assms(4) by (auto simp: takeWhile_eq_all_conv)
  then have idx: "index (split CHR '','' result) (Suc 0) = Some payload"
    unfolding r using index_split_1[OF h, of payload] by simp
  have started: "handleFileUpload (Some file) st = (st, Some file)"
    "handleFileChange (Some file) st = (st, Some file)"
    using assms(1) by (simp_all add: handleFileUpload_def handleFileChange_def)
  have load: "handleFileUpload_onload result file st' =
           st'\<lparr>image := Some \<lparr>originalUrl = result,
                    originalBase64 = Some (tl (dropWhile (\<lambda>x. x \<noteq> CHR '','') result)),
                    resultUrl = None, mimeType = type file\<rparr>,
               status := \<lparr>isLoading = False, message = [], error = None\<rparr>\<rparr>"
    by (simp add: handleFileUpload_onload_def idx after)
  have same: "handleFileChange_onload result file st' = handleFileUpload_onload result file st'"
    by (simp add: handleFileUpload_onload_def handleFileChange_onload_def)
  from started load same after show ?thesis by blast
qed

theorem upload_stores_image_witness:
  "handleFileUpload (Some \<lparr>type = ''image/png''\<rparr>) initial_state =
     (initial_state, Some \<lparr>type = ''image/png''\<rparr>) \<and>
   handleFileUpload_onload ''data:image/png;base64,QUJD'' \<lparr>type = ''image/png''\<rparr> initial_state =
     \<lparr>image = Some \<lparr>originalUrl = ''data:image/png;base64,QUJD'', originalBase64 = Some ''QUJD'',
                    resultUrl = None, mimeType = ''image/png''\<rparr>,
      instruction = [], status = \<lparr>isLoading = False, message = [], error = None\<rparr>\<rparr>"
  using upload_stores_image [of "\<lparr>type = ''image/png''\<rparr>" "''data:image/png;base64,QUJD''"
      "''image/png''" "''QUJD''" "initial_state" "initial_state"]
  by (simp add: example_defs startsWith_def)

section \<open>Processing\<close>

text \<open>
  C3: with an image loaded, when the edit call throws \<open>err\<close>, the handler ends in the state
  it started from except for the status, which is: not loading, empty message, and as
  error the message of \<open>err\<close>; in \<^verbatim>\<open>handleRemove\<close> the fallback text
  \<^verbatim>\<open>Something went wrong. Please try again.\<close> stands in for a message that is absent,
  that is, \<^verbatim>\<open>undefined\<close> or the empty string an error made without a message carries
  (\<^verbatim>\<open>err.message || ...\<close>). The image, with any earlier \<open>resultUrl\<close>, is untouched.
\<close>

theorem handlers_on_error:
  assumes "image st = Some img"
  shows "(gemini_editImage (originalBase64 img) (mimeType img)
            (finalInstruction custom (instruction st)) = Inl err \<longrightarrow>
          handleRemove gemini_editImage custom st =
            st\<lparr>status := \<lparr>isLoading = False, message = [],
                error = Some (case message_of err of
                                None \<Rightarrow> ''Something went wrong. Please try again.''
                              | Some m \<Rightarrow> if m = [] then ''Something went wrong. Please try again.''
                                          else m)\<rparr>\<rparr>) \<and>
         (fst (editImage srv (originalBase64 img) (mimeType img) instr net) = Inl err \<longrightarrow>
          fst (processImage srv instr st net) =
            st\<lparr>status := \<lparr>isLoading = False, message = [], error = message_of err\<rparr>\<rparr>)"
  using assms
  by (auto simp: handleRemove_loaded processImage_loaded handleRemove_settle_def
      processImage_settle_def split: option.splits)

theorem handlers_on_error_witness:
  "handleRemove (\<lambda>b m i. Inl (Error ''quota exceeded'')) None edited_state =
     edited_state\<lparr>status := \<lparr>isLoading = False, message = [], error = Some ''quota exceeded''\<rparr>\<rparr> \<and>
   fst (processImage (\<lambda>r. Inl (Error ''quota exceeded'')) ''make it brighter'' edited_state []) =
     edited_state\<lparr>status := \<lparr>isLoading = False, message = [], error = Some ''quota exceeded''\<rparr>\<rparr>"
  using handlers_on_error [of "edited_state" "edited_image" "\<lambda>b m i. Inl (Error ''quota exceeded'')" None
      "Error ''quota exceeded''" "\<lambda>r. Inl (Error ''quota exceeded'')" "''make it brighter''" "[]"]
  by (simp add: example_defs editImage_def generateContent_def)

text \<open>
  C5: with an image loaded, when the edit call returns \<open>url\<close>, the handler ends with
  \<open>resultUrl\<close> of the image set to \<open>url\<close>, its \<open>originalUrl\<close>, \<open>originalBase64\<close> and
  \<open>mimeType\<close> as they were, and the status not loading, with empty message and no error.
  The same holds of the step after the \<^verbatim>\<open>await\<close> alone, on the image current then.
\<close>

theorem handlers_on_success:
  assumes "image st = Some img"
  shows "(gemini_editImage (originalBase64 img) (mimeType img)
            (finalInstruction custom (instruction st)) = Inr url \<longrightarrow>
          handleRemove gemini_editImage custom st =
            st\<lparr>image := Some \<lparr>originalUrl = originalUrl img, originalBase64 = originalBase64 img,
                               resultUrl = Some url, mimeType = mimeType img\<rparr>,
               status := \<lparr>isLoading = False, message = [], error = None\<rparr>\<rparr>) \<and>
         (fst (editImage srv (originalBase64 img) (mimeType img) instr net) = Inr url \<longrightarrow>
          fst (processImage srv instr st net) =
            st\<lparr>image := Some \<lparr>originalUrl = originalUrl img, originalBase64 = originalBase64 img,
                               resultUrl = Some url, mimeType = mimeType img\<rparr>,
               status := \<lparr>isLoading = False, message = [], error = None\<rparr>\<rparr>) \<and>
         handleRemove_settle (Inr url) st =
            st\<lparr>image := Some \<lparr>originalUrl = originalUrl img, originalBase64 = originalBase64 img,
                               resultUrl = Some url, mimeType = mimeType img\<rparr>,
               status := \<lparr>isLoading = False, message = [], error = None\<rparr>\<rparr> \<and>
         processImage_settle (Inr url) st = handleRemove_settle (Inr url) st"
  using assms
  by (auto simp: handleRemove_loaded processImage_loaded handleRemove_settle_def
      processImage_settle_def)

theorem handlers_on_success_witness:
  "handleRemove (\<lambda>b m i. Inr ''data:image/png;base64,CCCC'') (Some (preset_text ENHANCE)) edited_state =
     edited_state\<lparr>image := Some \<lparr>originalUrl = ''data:image/png;base64,AAAA'',
                         originalBase64 = Some ''AAAA'',
                         resultUrl = Some ''data:image/png;base64,CCCC'',
                         mimeType = ''image/png''\<rparr>\<rparr>"
  using handlers_on_success [of "edited_state" "edited_image" "\<lambda>b m i. Inr ''data:image/png;base64,CCCC''"
      "Some (preset_text ENHANCE)" "''data:image/png;base64,CCCC''"]
  by (simp add: example_defs)

text \<open>
  C6: with an image loaded, \<^verbatim>\<open>handleRemove\<close> calls the service's \<^verbatim>\<open>editImage\<close>, whatever
  that is, on the stored payload, the stored mime type and this instruction: the preset
  it was called with (any non-empty string argument, as every preset is); without an
  argument, the free-form text when that is not empty, and the \<^verbatim>\<open>TRANSPARENT_BG\<close> preset
  otherwise. The handler's final state is what the step after the \<^verbatim>\<open>await\<close> makes of the
  outcome of that call. In the witness the service returns the instruction it was given.
\<close>

theorem handleRemove_instruction:
  assumes "image st = Some img"
  shows "(\<forall>p. handleRemove gemini_editImage (Some (preset_text p)) st =
            handleRemove_settle
              (gemini_editImage (originalBase64 img) (mimeType img) (preset_text p))
              (st\<lparr>status := \<lparr>isLoading = True,
                     message = ''Processing your image with AI magic...'', error = None\<rparr>\<rparr>)) \<and>
         (\<forall>c. c \<noteq> [] \<longrightarrow>
            handleRemove gemini_editImage (Some c) st =
            handleRemove_settle
              (gemini_editImage (originalBase64 img) (mimeType img) c)
              (st\<lparr>status := \<lparr>isLoading = True,
                     message = ''Processing your image with AI magic...'', error = None\<rparr>\<rparr>)) \<and>
         (instruction st \<noteq> [] \<longrightarrow>
            handleRemove gemini_editImage None st =
            handleRemove_settle
              (gemini_editImage (originalBase64 img) (mimeType img) (instruction st))
              (st\<lparr>status := \<lparr>isLoading = True,
                     message = ''Processing your image with AI magic...'', error = None\<rparr>\<rparr>)) \<and>
         (instruction st = [] \<longrightarrow>
            handleRemove gemini_editImage None st =
            handleRemove_settle
              (gemini_editImage (originalBase64 img) (mimeType img) (preset_text TRANSPARENT_BG))
              (st\<lparr>status := \<lparr>isLoading = True,
                     message = ''Processing your image with AI magic...'', error = None\<rparr>\<rparr>))"
  using assms preset_text_nonempty
  by (simp add: handleRemove_loaded finalInstruction_def)

theorem handleRemove_instruction_witness:
  "map_option resultUrl (image (handleRemove (\<lambda>b m i. Inr i) (Some (preset_text OBJECTS)) edited_state)) =
     Some (Some (preset_text OBJECTS)) \<and>
   map_option resultUrl (image (handleRemove (\<lambda>b m i. Inr i) None edited_state)) =
     Some (Some ''make it brighter'') \<and>
   map_option resultUrl (image (handleRemove (\<lambda>b m i. Inr i) None loaded_state)) =
     Some (Some (preset_text TRANSPARENT_BG))"
  using handleRemove_instruction [of edited_state edited_image "\<lambda>b m i. Inr i"]
    handleRemove_instruction [of loaded_state example_image "\<lambda>b m i. Inr i"]
  by (simp add: example_defs handleRemove_settle_def)

text \<open>
  C9, as stated, fails: on an error whose message is empty, \<^verbatim>\<open>handleRemove\<close> stores the
  fallback text and \<^verbatim>\<open>processImage\<close> the empty message.
\<close>

theorem pipelines_differ_counterexample:
  "error (status (handleRemove_settle (Inl (Error []))
      \<lparr>image = Some \<lparr>originalUrl = ''data:image/png;base64,AAAA'', originalBase64 = Some ''AAAA'',
                     resultUrl = None, mimeType = ''image/png''\<rparr>,
       instruction = [],
       status = \<lparr>isLoading = True, message = ''Processing your image with AI magic...'',
                 error = None\<rparr>\<rparr>)) =
     Some ''Something went wrong. Please try again.'' \<and>
   error (status (processImage_settle (Inl (Error []))
      \<lparr>image = Some \<lparr>originalUrl = ''data:image/png;base64,AAAA'', originalBase64 = Some ''AAAA'',
                     resultUrl = None, mimeType = ''image/png''\<rparr>,
       instruction = [],
       status = \<lparr>isLoading = True, message = ''Gemini is processing your request...'',
                 error = None\<rparr>\<rparr>)) =
     Some []"
  by (simp add: handleRemove_settle_def processImage_settle_def)

text \<open>
  C9 (amended): started from the same state with the same non-empty instruction, and
  given the same outcome of the edit call, \<^verbatim>\<open>handleRemove\<close> and \<^verbatim>\<open>processImage\<close> end in
  the same state (image and status), provided the outcome is a success or an error with
  a non-empty message.
\<close>

theorem pipelines_agree:
  assumes "\<forall>e. outcome = Inl e \<longrightarrow> (\<exists>m. message_of e = Some m \<and> m \<noteq> [])"
    and "instr \<noteq> []"
    and "\<forall>img. image st = Some img \<longrightarrow>
           gemini_editImage (originalBase64 img) (mimeType img) instr = outcome \<and>
           fst (editImage srv (originalBase64 img) (mimeType img) instr net) = outcome"
  shows "handleRemove gemini_editImage (Some instr) st = fst (processImage srv instr st net)"
proof (cases "image st")
  case None
  then show ?thesis
    by (simp add: handleRemove_def handleRemove_begin_def processImage_def processImage_begin_def)
next
  case (Some img)
  have fi: "finalInstruction (Some instr) (instruction st) = instr"
    using assms(2) by (simp add: finalInstruction_def)
  show ?thesis
    using assms(1,3) Some
    by (cases outcome)
       (auto simp: handleRemove_loaded processImage_loaded fi handleRemove_settle_def
         processImage_settle_def)
qed

theorem pipelines_agree_witness:
  "handleRemove (\<lambda>b m i. Inl (Error no_image_message)) (Some ''Remove the text'') edited_state =
   fst (processImage (\<lambda>r. Inr \<lparr>candidates = None\<rparr>) ''Remove the text'' edited_state []) \<and>
   fst (processImage (\<lambda>r. Inr \<lparr>candidates = None\<rparr>) ''Remove the text'' edited_state []) =
     edited_state\<lparr>status := \<lparr>isLoading = False, message = [], error = Some no_image_message\<rparr>\<rparr>"
  using pipelines_agree [of "Inl (Error no_image_message)" "''Remove the text''" "edited_state"
      "\<lambda>b m i. Inl (Error no_image_message)" "\<lambda>r. Inr \<lparr>candidates = None\<rparr>" "[]"]
  by (simp add: example_defs editImage_def generateContent_def editImage_extract_def editImage_finish_def
      no_image_message_def processImage_def processImage_begin_def processImage_settle_def)

end
